theory Spec2Isabelle
  imports Main
begin

section \<open>The selection algebra of PropertySelection\<close>

text \<open>
  A shallow embedding of the class \<open>PropertySelection\<close> (a selection bound to one text
  property of a document): its constructor, \<open>toJSON\<close>/\<open>fromJSON\<close>, the predicates
  \<open>isInsideOf\<close>, \<open>contains\<close>, \<open>overlaps\<close>, and the transforms \<open>collapse\<close>,
  \<open>expand\<close>, \<open>truncateWith\<close> and \<open>createWithNewRange\<close>.

  Offsets are JavaScript Numbers that hold character positions; the code only compares
  them and takes their minimum and maximum, so they are integers in the model that most
  properties are stated on. The constructor itself accepts more: any Number as
  \<open>startOffset\<close>, \<open>NaN\<close> included, and anything as \<open>endOffset\<close>, also nothing at all.
  The subsection on the general model repeats the constructor and the methods for such
  offsets; on integers the two models coincide (lemmas \<open>raw_new_PropertySelection_lift\<close>
  to \<open>raw_truncateWith_lift\<close>). Selections are objects, and some properties are about
  which instance a method returns, so instances live in an explicit store and methods
  take and return references.
\<close>

subsection \<open>Data model\<close>

record PropertySelection =
  path :: "string list"
  startOffset :: int
  endOffset :: int
  reverse :: bool
  containerId :: "string option"
  surfaceId :: "string option"

text \<open>
  The store is the list of all instances created so far; a reference is an index into
  it, and \<open>new\<close> appends. The document back-reference of an instance
  (\<open>_internal.doc\<close>) is left out: none of the operations below reads it except to copy it.
\<close>

type_synonym ref = nat
type_synonym heap = "PropertySelection list"

text \<open>
  A selection value as the methods receive it: the frozen singleton
  \<open>Selection.nullSelection\<close>, or a reference to a \<open>PropertySelection\<close> instance.
  Container selections belong to another class whose code is not part of these sources;
  every branch that delegates to one is therefore outside this embedding.
\<close>

datatype Selection = NullSelection | Property ref

text \<open>
  The exceptions the code throws, named after what they report:
  \<^item> \<open>InvalidArguments\<close>: \<^verbatim>\<open>Invalid arguments: `path` and `startOffset` are mandatory\<close>
  \<^item> \<open>IncompatiblePath\<close>: \<^verbatim>\<open>Can not expand PropertySelection to a different property.\<close>
  \<^item> \<open>UnsupportedTruncation\<close>: \<^verbatim>\<open>Can not truncate with a contained selections\<close>
  \<^item> \<open>IllegalState\<close>: \<^verbatim>\<open>Illegal state.\<close>
\<close>

datatype error = InvalidArguments | IncompatiblePath | UnsupportedTruncation | IllegalState

text \<open>
  The plain object of \<open>toJSON\<close>/\<open>fromJSON\<close>. A field is \<open>None\<close> when the key is
  absent (for \<open>json_path\<close> and \<open>json_startOffset\<close>: absent, or not of the required
  type); \<open>json_endOffset = None\<close> is \<open>!json.hasOwnProperty('endOffset')\<close>.
\<close>

record JSON =
  json_type :: string
  json_path :: "string list option"
  json_startOffset :: "int option"
  json_endOffset :: "int option"
  json_reverse :: "bool option"
  json_containerId :: "string option"
  json_surfaceId :: "string option"

subsection \<open>Construction\<close>

definition alloc :: "heap \<Rightarrow> PropertySelection \<Rightarrow> ref \<times> heap" where
  "alloc h obj = (length h, h @ [obj])"

text \<open>\<open>Boolean(reverse)\<close>: a missing argument is falsy.\<close>

definition Boolean :: "bool option \<Rightarrow> bool" where
  "Boolean v = (case v of None \<Rightarrow> False | Some b \<Rightarrow> b)"

text \<open>
  \<open>new PropertySelection(path, startOffset, endOffset, reverse, containerId, surfaceId)\<close>.
  The only check is \<open>!path || !isNumber(startOffset)\<close>; \<open>None\<close> stands for an argument
  that fails it. The offsets are stored as given. Here both offsets are integers;
  \<open>raw_new_PropertySelection\<close> below is the constructor on every argument it accepts.
\<close>

definition new_PropertySelection ::
  "heap \<Rightarrow> string list option \<Rightarrow> int option \<Rightarrow> int \<Rightarrow> bool option \<Rightarrow>
   string option \<Rightarrow> string option \<Rightarrow> error + (ref \<times> heap)" where
  "new_PropertySelection h path' startOffset' endOffset' reverse' containerId' surfaceId' =
     (if path' = None \<or> startOffset' = None then Inl InvalidArguments
      else Inr (alloc h \<lparr>path = the path', startOffset = the startOffset',
                         endOffset = endOffset', reverse = Boolean reverse',
                         containerId = containerId', surfaceId = surfaceId'\<rparr>))"

definition toJSON :: "heap \<Rightarrow> ref \<Rightarrow> JSON" where
  "toJSON h this =
     \<lparr>json_type = ''property'',
      json_path = Some (path (h ! this)),
      json_startOffset = Some (startOffset (h ! this)),
      json_endOffset = Some (endOffset (h ! this)),
      json_reverse = Some (reverse (h ! this)),
      json_containerId = containerId (h ! this),
      json_surfaceId = surfaceId (h ! this)\<rparr>"

text \<open>
  \<open>fromJSON\<close>: \<open>endOffset\<close> is \<open>json.endOffset\<close> when the object has that key and
  \<open>json.startOffset\<close> otherwise. When neither is there the constructor is reached with
  a \<open>startOffset\<close> that is not a number, and throws.
\<close>

definition fromJSON :: "heap \<Rightarrow> JSON \<Rightarrow> error + (ref \<times> heap)" where
  "fromJSON h json =
     (let path' = json_path json;
          startOffset' = json_startOffset json;
          endOffset' = (if json_endOffset json \<noteq> None then json_endOffset json
                        else json_startOffset json);
          reverse' = json_reverse json;
          containerId' = json_containerId json;
          surfaceId' = json_surfaceId json
      in case endOffset' of
           None \<Rightarrow> Inl InvalidArguments
         | Some e \<Rightarrow> new_PropertySelection h path' startOffset' e reverse' containerId' surfaceId')"

subsection \<open>Predicates\<close>

definition isCollapsed :: "heap \<Rightarrow> ref \<Rightarrow> bool" where
  "isCollapsed h this = (startOffset (h ! this) = endOffset (h ! this))"

text \<open>\<open>this.isInsideOf(other, strict)\<close>; \<open>isEqual\<close> on two paths is equality of the lists.\<close>

definition isInsideOf :: "heap \<Rightarrow> ref \<Rightarrow> Selection \<Rightarrow> bool \<Rightarrow> bool" where
  "isInsideOf h this other strict =
     (case other of
        NullSelection \<Rightarrow> False
      | Property that \<Rightarrow>
          (if strict then
             (path (h ! this) = path (h ! that) \<and>
              startOffset (h ! this) > startOffset (h ! that) \<and>
              endOffset (h ! this) < endOffset (h ! that))
           else
             (path (h ! this) = path (h ! that) \<and>
              startOffset (h ! this) \<ge> startOffset (h ! that) \<and>
              endOffset (h ! this) \<le> endOffset (h ! that))))"

text \<open>\<open>this.contains(other, strict)\<close>: after the null check it calls \<open>other.isInsideOf(this, strict)\<close>.\<close>

definition contains :: "heap \<Rightarrow> ref \<Rightarrow> Selection \<Rightarrow> bool \<Rightarrow> bool" where
  "contains h this other strict =
     (case other of
        NullSelection \<Rightarrow> False
      | Property that \<Rightarrow> isInsideOf h that (Property this) strict)"

text \<open>
  Modelled from the spec: the method \<open>isInsideOf\<close> of the null selection, whose class is
  defined in the module \<open>Selection\<close> that these sources import but do not contain. The
  spec: the null selection is absorbing for every relational predicate, it is never
  inside, contains, or overlaps anything.
\<close>

definition NullSelection_isInsideOf :: "heap \<Rightarrow> Selection \<Rightarrow> bool \<Rightarrow> bool" where
  "NullSelection_isInsideOf h other strict = False"

text \<open>
  The call \<open>a.isInsideOf(b, strict)\<close> on a receiver of either kind: the method of
  \<open>PropertySelection\<close> above, or the one of the null selection.
\<close>

definition call_isInsideOf :: "heap \<Rightarrow> Selection \<Rightarrow> Selection \<Rightarrow> bool \<Rightarrow> bool" where
  "call_isInsideOf h a b strict =
     (case a of
        NullSelection \<Rightarrow> NullSelection_isInsideOf h b strict
      | Property r \<Rightarrow> isInsideOf h r b strict)"

definition overlaps :: "heap \<Rightarrow> ref \<Rightarrow> Selection \<Rightarrow> bool \<Rightarrow> bool" where
  "overlaps h this other strict =
     (case other of
        NullSelection \<Rightarrow> False
      | Property that \<Rightarrow>
          (if path (h ! this) \<noteq> path (h ! that) then False
           else if strict then
             \<not> (startOffset (h ! this) \<ge> endOffset (h ! that) \<or>
                endOffset (h ! this) \<le> startOffset (h ! that))
           else
             \<not> (startOffset (h ! this) > endOffset (h ! that) \<or>
                endOffset (h ! this) < startOffset (h ! that))))"

text \<open>
  The overlap rule in the words of the specification, for two property-scoped selections:
  non-strict \<open>NOT (this.start > other.end OR this.end < other.start)\<close>, strict
  \<open>NOT (this.start >= other.end OR this.end <= other.start)\<close>, on equal paths.
\<close>

definition spec_overlaps :: "PropertySelection \<Rightarrow> PropertySelection \<Rightarrow> bool \<Rightarrow> bool" where
  "spec_overlaps a b strict =
     (path a = path b \<and>
      (if strict then \<not> (startOffset a \<ge> endOffset b \<or> endOffset a \<le> startOffset b)
       else \<not> (startOffset a > endOffset b \<or> endOffset a < startOffset b)))"

subsection \<open>Transforms\<close>

text \<open>
  \<open>createWithNewRange\<close>: a new instance on the same path, never reversed, with the
  container and surface of \<open>this\<close>.
\<close>

definition createWithNewRange :: "heap \<Rightarrow> ref \<Rightarrow> int \<Rightarrow> int \<Rightarrow> error + (Selection \<times> heap)" where
  "createWithNewRange h this startOffset' endOffset' =
     (case new_PropertySelection h (Some (path (h ! this))) (Some startOffset') endOffset'
             (Some False) (containerId (h ! this)) (surfaceId (h ! this)) of
        Inl e \<Rightarrow> Inl e
      | Inr (sel, h') \<Rightarrow> Inr (Property sel, h'))"

definition collapse :: "heap \<Rightarrow> ref \<Rightarrow> string \<Rightarrow> error + (Selection \<times> heap)" where
  "collapse h this direction =
     (let offset = (if direction = ''left'' then startOffset (h ! this)
                    else endOffset (h ! this))
      in createWithNewRange h this offset offset)"

definition expand :: "heap \<Rightarrow> ref \<Rightarrow> Selection \<Rightarrow> error + (Selection \<times> heap)" where
  "expand h this other =
     (case other of
        NullSelection \<Rightarrow> Inr (Property this, h)
      | Property that \<Rightarrow>
          (if path (h ! this) \<noteq> path (h ! that) then Inl IncompatiblePath
           else
             (let newStartOffset = min (startOffset (h ! this)) (startOffset (h ! that));
                  newEndOffset = max (endOffset (h ! this)) (endOffset (h ! that))
              in createWithNewRange h this newStartOffset newEndOffset)))"

text \<open>
  \<open>truncateWith\<close>. For a property-scoped \<open>other\<close> the effective offsets are its own
  (the branch that resolves them for a container selection, and the final
  \<open>return this\<close> for a selection of neither kind, need a selection outside the
  datatype). \<open>isInsideOf\<close> is called with the truthy \<open>'strict'\<close>, \<open>overlaps\<close> and
  \<open>contains\<close> without a second argument, which is falsy.
\<close>

definition truncateWith :: "heap \<Rightarrow> ref \<Rightarrow> Selection \<Rightarrow> error + (Selection \<times> heap)" where
  "truncateWith h this other =
     (case other of
        NullSelection \<Rightarrow> Inr (Property this, h)
      | Property that \<Rightarrow>
          (if isInsideOf h that (Property this) True then Inl UnsupportedTruncation
           else if \<not> overlaps h this other False then Inr (Property this, h)
           else
             (let otherStartOffset = startOffset (h ! that);
                  otherEndOffset = endOffset (h ! that)
              in
                if startOffset (h ! this) > otherStartOffset \<and>
                   endOffset (h ! this) > otherEndOffset then
                  createWithNewRange h this otherEndOffset (endOffset (h ! this))
                else if startOffset (h ! this) < otherStartOffset \<and>
                        endOffset (h ! this) < otherEndOffset then
                  createWithNewRange h this (startOffset (h ! this)) otherStartOffset
                else if startOffset (h ! this) = otherStartOffset then
                  (if endOffset (h ! this) \<le> otherEndOffset then Inr (NullSelection, h)
                   else createWithNewRange h this otherEndOffset (endOffset (h ! this)))
                else if endOffset (h ! this) = otherEndOffset then
                  (if startOffset (h ! this) \<ge> otherStartOffset then Inr (NullSelection, h)
                   else createWithNewRange h this (startOffset (h ! this)) otherStartOffset)
                else if contains h that (Property this) False then Inr (NullSelection, h)
                else Inl IllegalState)))"

subsection \<open>Vocabulary of the statements\<close>

text \<open>
  The instance that \<open>createWithNewRange\<close> builds from \<open>this\<close> for a range, and the
  outcome "a new instance holding that range was returned".
\<close>

definition withRange :: "PropertySelection \<Rightarrow> int \<Rightarrow> int \<Rightarrow> PropertySelection" where
  "withRange s a b =
     \<lparr>path = path s, startOffset = a, endOffset = b, reverse = False,
      containerId = containerId s, surfaceId = surfaceId s\<rparr>"

definition newRange :: "heap \<Rightarrow> ref \<Rightarrow> int \<Rightarrow> int \<Rightarrow> error + (Selection \<times> heap)" where
  "newRange h this a b = Inr (Property (length h), h @ [withRange (h ! this) a b])"

text \<open>The invariant of the data model: \<open>startOffset <= endOffset\<close>.\<close>

definition invariant :: "PropertySelection \<Rightarrow> bool" where
  "invariant s = (startOffset s \<le> endOffset s)"

text \<open>The \<open>[start, end]\<close> range of the selection a transform returned, if it returned one.\<close>

definition resultRange :: "error + (Selection \<times> heap) \<Rightarrow> (int \<times> int) option" where
  "resultRange res =
     (case res of
        Inr (Property r, h') \<Rightarrow> Some (startOffset (h' ! r), endOffset (h' ! r))
      | _ \<Rightarrow> None)"

text \<open>
  The two one-sided overlaps in the words of the specification: \<open>other\<close> properly
  straddles the right side of \<open>this\<close> when it begins inside \<open>this\<close>, after its start,
  and ends beyond its end (\<open>[5,15]\<close> against \<open>[0,10]\<close>, the specification's
  right-overlap case); it properly straddles the left side when it begins before
  \<open>this\<close> and ends inside it, before its end.
\<close>

definition straddlesRightSide :: "PropertySelection \<Rightarrow> PropertySelection \<Rightarrow> bool" where
  "straddlesRightSide this other =
     (startOffset this < startOffset other \<and> startOffset other \<le> endOffset this \<and>
      endOffset this < endOffset other)"

definition straddlesLeftSide :: "PropertySelection \<Rightarrow> PropertySelection \<Rightarrow> bool" where
  "straddlesLeftSide this other =
     (startOffset other < startOffset this \<and> startOffset this \<le> endOffset other \<and>
      endOffset other < endOffset this)"

text \<open>An instance \<open>[a, b]\<close> on a path, not reversed, outside any container or surface.\<close>

definition rangeOn :: "string list \<Rightarrow> int \<Rightarrow> int \<Rightarrow> PropertySelection" where
  "rangeOn p a b =
     \<lparr>path = p, startOffset = a, endOffset = b, reverse = False,
      containerId = None, surfaceId = None\<rparr>"

subsection \<open>The general model: offsets as the constructor accepts them\<close>

text \<open>
  What an offset argument or field holds in this model: \<open>undefined\<close> (an argument
  that was left out), the Number \<open>NaN\<close>, or a Number that holds an integer. These are
  the values on which the comparisons of the code differ from those of the integers;
  fractions and the infinities are ordered like integers, and values of other types
  (strings, \<open>null\<close>, objects) are left out.
\<close>

datatype jsvalue = Undefined | NaN | Num int

text \<open>
  \<open>isNumber\<close> of lodash is true of every Number, \<open>NaN\<close> included.
\<close>

definition isNumber :: "jsvalue \<Rightarrow> bool" where
  "isNumber v = (v \<noteq> Undefined)"

text \<open>
  The relational operators \<open><\<close>, \<open><=\<close>, \<open>>\<close>, \<open>>=\<close> convert \<open>undefined\<close> to \<open>NaN\<close>
  and are false as soon as one side is \<open>NaN\<close>. Strict equality \<open>===\<close> is false of
  \<open>NaN\<close> and itself and true of \<open>undefined\<close> and itself. \<open>Math.min\<close> and \<open>Math.max\<close>
  return \<open>NaN\<close> as soon as one argument converts to \<open>NaN\<close>.
\<close>

fun js_lt :: "jsvalue \<Rightarrow> jsvalue \<Rightarrow> bool" where
  "js_lt (Num a) (Num b) = (a < b)"
| "js_lt _ _ = False"

fun js_le :: "jsvalue \<Rightarrow> jsvalue \<Rightarrow> bool" where
  "js_le (Num a) (Num b) = (a \<le> b)"
| "js_le _ _ = False"

definition js_gt :: "jsvalue \<Rightarrow> jsvalue \<Rightarrow> bool" where
  "js_gt x y = js_lt y x"

definition js_ge :: "jsvalue \<Rightarrow> jsvalue \<Rightarrow> bool" where
  "js_ge x y = js_le y x"

fun js_eq :: "jsvalue \<Rightarrow> jsvalue \<Rightarrow> bool" where
  "js_eq (Num a) (Num b) = (a = b)"
| "js_eq Undefined Undefined = True"
| "js_eq _ _ = False"

fun Math_min :: "jsvalue \<Rightarrow> jsvalue \<Rightarrow> jsvalue" where
  "Math_min (Num a) (Num b) = Num (min a b)"
| "Math_min _ _ = NaN"

fun Math_max :: "jsvalue \<Rightarrow> jsvalue \<Rightarrow> jsvalue" where
  "Math_max (Num a) (Num b) = Num (max a b)"
| "Math_max _ _ = NaN"

text \<open>
  An instance with its two offset fields as they are stored: the constructor checks
  \<open>isNumber(startOffset)\<close> and nothing about \<open>endOffset\<close>.
\<close>

record RawSelection =
  raw_path :: "string list"
  raw_startOffset :: jsvalue
  raw_endOffset :: jsvalue
  raw_reverse :: bool
  raw_containerId :: "string option"
  raw_surfaceId :: "string option"

type_synonym raw_heap = "RawSelection list"

text \<open>
  The object given to \<open>fromJSON\<close>: \<open>rawjson_startOffset\<close> is \<open>json.startOffset\<close>
  (\<open>undefined\<close> when absent), \<open>rawjson_endOffset = None\<close> is
  \<open>!json.hasOwnProperty('endOffset')\<close>.
\<close>

record RawJSON =
  rawjson_type :: string
  rawjson_path :: "string list option"
  rawjson_startOffset :: jsvalue
  rawjson_endOffset :: "jsvalue option"
  rawjson_reverse :: "bool option"
  rawjson_containerId :: "string option"
  rawjson_surfaceId :: "string option"

text \<open>
  The constructor and the methods once more, line by line as above, on these values.
\<close>

definition raw_new_PropertySelection ::
  "raw_heap \<Rightarrow> string list option \<Rightarrow> jsvalue \<Rightarrow> jsvalue \<Rightarrow> bool option \<Rightarrow>
   string option \<Rightarrow> string option \<Rightarrow> error + (ref \<times> raw_heap)" where
  "raw_new_PropertySelection h path' startOffset' endOffset' reverse' containerId' surfaceId' =
     (if path' = None \<or> \<not> isNumber startOffset' then Inl InvalidArguments
      else Inr (length h,
                h @ [\<lparr>raw_path = the path', raw_startOffset = startOffset',
                       raw_endOffset = endOffset', raw_reverse = Boolean reverse',
                       raw_containerId = containerId', raw_surfaceId = surfaceId'\<rparr>]))"

definition raw_fromJSON :: "raw_heap \<Rightarrow> RawJSON \<Rightarrow> error + (ref \<times> raw_heap)" where
  "raw_fromJSON h json =
     (let path' = rawjson_path json;
          startOffset' = rawjson_startOffset json;
          endOffset' = (case rawjson_endOffset json of
                          Some e \<Rightarrow> e
                        | None \<Rightarrow> rawjson_startOffset json);
          reverse' = rawjson_reverse json;
          containerId' = rawjson_containerId json;
          surfaceId' = rawjson_surfaceId json
      in raw_new_PropertySelection h path' startOffset' endOffset' reverse' containerId' surfaceId')"

definition raw_isInsideOf :: "raw_heap \<Rightarrow> ref \<Rightarrow> Selection \<Rightarrow> bool \<Rightarrow> bool" where
  "raw_isInsideOf h this other strict =
     (case other of
        NullSelection \<Rightarrow> False
      | Property that \<Rightarrow>
          (if strict then
             (raw_path (h ! this) = raw_path (h ! that) \<and>
              js_gt (raw_startOffset (h ! this)) (raw_startOffset (h ! that)) \<and>
              js_lt (raw_endOffset (h ! this)) (raw_endOffset (h ! that)))
           else
             (raw_path (h ! this) = raw_path (h ! that) \<and>
              js_ge (raw_startOffset (h ! this)) (raw_startOffset (h ! that)) \<and>
              js_le (raw_endOffset (h ! this)) (raw_endOffset (h ! that)))))"

definition raw_contains :: "raw_heap \<Rightarrow> ref \<Rightarrow> Selection \<Rightarrow> bool \<Rightarrow> bool" where
  "raw_contains h this other strict =
     (case other of
        NullSelection \<Rightarrow> False
      | Property that \<Rightarrow> raw_isInsideOf h that (Property this) strict)"

definition raw_overlaps :: "raw_heap \<Rightarrow> ref \<Rightarrow> Selection \<Rightarrow> bool \<Rightarrow> bool" where
  "raw_overlaps h this other strict =
     (case other of
        NullSelection \<Rightarrow> False
      | Property that \<Rightarrow>
          (if raw_path (h ! this) \<noteq> raw_path (h ! that) then False
           else if strict then
             \<not> (js_ge (raw_startOffset (h ! this)) (raw_endOffset (h ! that)) \<or>
                js_le (raw_endOffset (h ! this)) (raw_startOffset (h ! that)))
           else
             \<not> (js_gt (raw_startOffset (h ! this)) (raw_endOffset (h ! that)) \<or>
                js_lt (raw_endOffset (h ! this)) (raw_startOffset (h ! that)))))"

definition raw_createWithNewRange ::
  "raw_heap \<Rightarrow> ref \<Rightarrow> jsvalue \<Rightarrow> jsvalue \<Rightarrow> error + (Selection \<times> raw_heap)" where
  "raw_createWithNewRange h this startOffset' endOffset' =
     (case raw_new_PropertySelection h (Some (raw_path (h ! this))) startOffset' endOffset'
             (Some False) (raw_containerId (h ! this)) (raw_surfaceId (h ! this)) of
        Inl e \<Rightarrow> Inl e
      | Inr (sel, h') \<Rightarrow> Inr (Property sel, h'))"

definition raw_collapse :: "raw_heap \<Rightarrow> ref \<Rightarrow> string \<Rightarrow> error + (Selection \<times> raw_heap)" where
  "raw_collapse h this direction =
     (let offset = (if direction = ''left'' then raw_startOffset (h ! this)
                    else raw_endOffset (h ! this))
      in raw_createWithNewRange h this offset offset)"

definition raw_expand :: "raw_heap \<Rightarrow> ref \<Rightarrow> Selection \<Rightarrow> error + (Selection \<times> raw_heap)" where
  "raw_expand h this other =
     (case other of
        NullSelection \<Rightarrow> Inr (Property this, h)
      | Property that \<Rightarrow>
          (if raw_path (h ! this) \<noteq> raw_path (h ! that) then Inl IncompatiblePath
           else
             (let newStartOffset =
                    Math_min (raw_startOffset (h ! this)) (raw_startOffset (h ! that));
                  newEndOffset =
                    Math_max (raw_endOffset (h ! this)) (raw_endOffset (h ! that))
              in raw_createWithNewRange h this newStartOffset newEndOffset)))"

definition raw_truncateWith ::
  "raw_heap \<Rightarrow> ref \<Rightarrow> Selection \<Rightarrow> error + (Selection \<times> raw_heap)" where
  "raw_truncateWith h this other =
     (case other of
        NullSelection \<Rightarrow> Inr (Property this, h)
      | Property that \<Rightarrow>
          (if raw_isInsideOf h that (Property this) True then Inl UnsupportedTruncation
           else if \<not> raw_overlaps h this other False then Inr (Property this, h)
           else
             (let otherStartOffset = raw_startOffset (h ! that);
                  otherEndOffset = raw_endOffset (h ! that)
              in
                if js_gt (raw_startOffset (h ! this)) otherStartOffset \<and>
                   js_gt (raw_endOffset (h ! this)) otherEndOffset then
                  raw_createWithNewRange h this otherEndOffset (raw_endOffset (h ! this))
                else if js_lt (raw_startOffset (h ! this)) otherStartOffset \<and>
                        js_lt (raw_endOffset (h ! this)) otherEndOffset then
                  raw_createWithNewRange h this (raw_startOffset (h ! this)) otherStartOffset
                else if js_eq (raw_startOffset (h ! this)) otherStartOffset then
                  (if js_le (raw_endOffset (h ! this)) otherEndOffset
                   then Inr (NullSelection, h)
                   else raw_createWithNewRange h this otherEndOffset (raw_endOffset (h ! this)))
                else if js_eq (raw_endOffset (h ! this)) otherEndOffset then
                  (if js_ge (raw_startOffset (h ! this)) otherStartOffset
                   then Inr (NullSelection, h)
                   else raw_createWithNewRange h this (raw_startOffset (h ! this))
                          otherStartOffset)
                else if raw_contains h that (Property this) False then Inr (NullSelection, h)
                else Inl IllegalState)))"

text \<open>
  The invariant \<open>startOffset <= endOffset\<close> as JavaScript evaluates it: it holds only of
  two integers.
\<close>

definition raw_invariant :: "RawSelection \<Rightarrow> bool" where
  "raw_invariant s = js_le (raw_startOffset s) (raw_endOffset s)"

definition raw_selection_invariant :: "raw_heap \<Rightarrow> Selection \<Rightarrow> bool" where
  "raw_selection_invariant h sel =
     (case sel of NullSelection \<Rightarrow> True | Property r \<Rightarrow> raw_invariant (h ! r))"

text \<open>
  The other selection is the null selection, or both of its offsets are integers.
\<close>

definition isInteger :: "jsvalue \<Rightarrow> bool" where
  "isInteger v = (case v of Num a \<Rightarrow> True | _ \<Rightarrow> False)"

definition numericOffsets :: "raw_heap \<Rightarrow> Selection \<Rightarrow> bool" where
  "numericOffsets h sel =
     (case sel of
        NullSelection \<Rightarrow> True
      | Property r \<Rightarrow> isInteger (raw_startOffset (h ! r)) \<and> isInteger (raw_endOffset (h ! r)))"

text \<open>
  The embedding of the integer model into the general one: an instance, a constructor
  argument (\<open>None\<close>, the argument that fails \<open>isNumber\<close>, is \<open>undefined\<close>), an object of
  \<open>fromJSON\<close>, a result; and the references in use.
\<close>

definition lift :: "PropertySelection \<Rightarrow> RawSelection" where
  "lift s =
     \<lparr>raw_path = path s, raw_startOffset = Num (startOffset s),
      raw_endOffset = Num (endOffset s), raw_reverse = reverse s,
      raw_containerId = containerId s, raw_surfaceId = surfaceId s\<rparr>"

definition liftArgument :: "int option \<Rightarrow> jsvalue" where
  "liftArgument a = (case a of None \<Rightarrow> Undefined | Some n \<Rightarrow> Num n)"

definition liftResult :: "error + ('a \<times> heap) \<Rightarrow> error + ('a \<times> raw_heap)" where
  "liftResult res = (case res of Inl e \<Rightarrow> Inl e | Inr (x, h') \<Rightarrow> Inr (x, map lift h'))"

definition validSelection :: "heap \<Rightarrow> Selection \<Rightarrow> bool" where
  "validSelection h sel = (case sel of NullSelection \<Rightarrow> True | Property r \<Rightarrow> r < length h)"

text \<open>
  An instance with the given offsets on a path, not reversed, outside any container or
  surface.
\<close>

definition rawRangeOn :: "string list \<Rightarrow> jsvalue \<Rightarrow> jsvalue \<Rightarrow> RawSelection" where
  "rawRangeOn p a b =
     \<lparr>raw_path = p, raw_startOffset = a, raw_endOffset = b, raw_reverse = False,
      raw_containerId = None, raw_surfaceId = None\<rparr>"

definition liftJSON :: "JSON \<Rightarrow> RawJSON" where
  "liftJSON j =
     \<lparr>rawjson_type = json_type j, rawjson_path = json_path j,
      rawjson_startOffset = liftArgument (json_startOffset j),
      rawjson_endOffset = map_option Num (json_endOffset j),
      rawjson_reverse = json_reverse j,
      rawjson_containerId = json_containerId j, rawjson_surfaceId = json_surfaceId j\<rparr>"

section \<open>Properties\<close>

text \<open>
  Every statement below holds for an arbitrary store \<open>h\<close> and arbitrary references into
  it; \<open>this\<close> is the receiver and \<open>that\<close> the instance behind a property-scoped
  \<open>other\<close>.
\<close>

subsection \<open>Building a range\<close>

lemma createWithNewRange_newRange:
  "createWithNewRange h this a b = newRange h this a b"
  by (simp add: createWithNewRange_def new_PropertySelection_def alloc_def newRange_def
      withRange_def Boolean_def)

lemma createWithNewRange_fresh:
  assumes "createWithNewRange h this a b = Inr (sel, h')"
  shows "sel = Property (length h)" and "length h' = Suc (length h)"
    and "\<forall>r < length h. h' ! r = h ! r"
  using assms
  by (auto simp: createWithNewRange_newRange newRange_def nth_append)

subsection \<open>Overlap\<close>

text \<open>
  Claim C6. For two property-scoped selections, \<open>overlaps\<close> is the rule of the
  specification (equal paths, then the non-strict or the strict comparison of the
  offsets), and it is symmetric: \<open>a.overlaps(b, strict)\<close> equals \<open>b.overlaps(a, strict)\<close>.
  The symmetry needs no assumption on the paths.
\<close>

theorem overlaps_rule_and_symmetry:
  "overlaps h a (Property b) strict = spec_overlaps (h ! a) (h ! b) strict \<and>
   overlaps h a (Property b) strict = overlaps h b (Property a) strict"
  by (auto simp: overlaps_def spec_overlaps_def)

subsection \<open>Containment\<close>

text \<open>
  Claim C9. For a property-scoped \<open>b\<close> and either strictness, \<open>a.isInsideOf(b, strict)\<close>
  equals \<open>b.contains(a, strict)\<close>: for a property-scoped \<open>a\<close> (first conjunct, both
  methods of \<open>PropertySelection\<close>) and for the null selection \<open>a\<close> (second conjunct,
  where both sides are false).
\<close>

theorem isInsideOf_contains_mirror:
  "isInsideOf h a (Property b) strict = contains h b (Property a) strict \<and>
   call_isInsideOf h NullSelection (Property b) strict = contains h b NullSelection strict \<and>
   call_isInsideOf h sel (Property b) strict = contains h b sel strict"
  by (cases sel) (simp_all add: call_isInsideOf_def contains_def NullSelection_isInsideOf_def)

subsection \<open>The null selection as argument, and which instance a transform returns\<close>

text \<open>
  What a call of \<open>truncateWith\<close> with a property-scoped \<open>other\<close> can end in: one of the
  two errors, the receiver, the null selection, or whatever \<open>createWithNewRange\<close>
  returns for some range.
\<close>

lemma truncateWith_outcomes:
  "truncateWith h s (Property that) = Inl UnsupportedTruncation \<or>
   (\<not> overlaps h s (Property that) False \<and>
    truncateWith h s (Property that) = Inr (Property s, h)) \<or>
   truncateWith h s (Property that) = Inr (NullSelection, h) \<or>
   (\<exists>a b. truncateWith h s (Property that) = createWithNewRange h s a b) \<or>
   truncateWith h s (Property that) = Inl IllegalState"
proof -
  have new: "\<exists>a b. createWithNewRange h s x y = createWithNewRange h s a b" for x y
    by blast
  show ?thesis
    unfolding truncateWith_def Let_def Selection.case
    by (simp only: new split: if_split) simp
qed

text \<open>
  Claim C10, as amended. \<open>s.expand(nullSelection)\<close> and \<open>s.truncateWith(nullSelection)\<close>
  return the instance \<open>s\<close> itself: the reference returned is \<open>s\<close> and the store is the
  one before the call, with no instance added. With a property-scoped \<open>other\<close>, every
  successful \<open>expand\<close> returns a new instance built by \<open>createWithNewRange\<close> (a
  reference that was not in the store before), while a successful \<open>truncateWith\<close>
  returns either the receiver \<open>s\<close> itself with the store unchanged (when the two do not
  overlap), or the null selection with the store unchanged, or a new instance built by
  \<open>createWithNewRange\<close>.
\<close>

theorem null_selection_is_identity:
  "expand h s NullSelection = Inr (Property s, h) \<and>
   truncateWith h s NullSelection = Inr (Property s, h) \<and>
   (expand h s (Property that) = Inr (sel, h') \<longrightarrow>
      (\<exists>a b. createWithNewRange h s a b = Inr (sel, h')) \<and>
      sel = Property (length h) \<and> length h' = Suc (length h)) \<and>
   (truncateWith h s (Property that) = Inr (sel2, h2) \<longrightarrow>
      (sel2 = Property s \<and> h2 = h \<and> \<not> overlaps h s (Property that) False) \<or>
      (sel2 = NullSelection \<and> h2 = h) \<or>
      ((\<exists>a b. createWithNewRange h s a b = Inr (sel2, h2)) \<and>
       sel2 = Property (length h) \<and> length h2 = Suc (length h)))"
proof (intro conjI impI)
  show "expand h s NullSelection = Inr (Property s, h)"
    by (simp add: expand_def)
  show "truncateWith h s NullSelection = Inr (Property s, h)"
    by (simp add: truncateWith_def)
next
  assume "expand h s (Property that) = Inr (sel, h')"
  then have *: "createWithNewRange h s (min (startOffset (h ! s)) (startOffset (h ! that)))
      (max (endOffset (h ! s)) (endOffset (h ! that))) = Inr (sel, h')"
    by (simp add: expand_def Let_def split: if_splits)
  then show "\<exists>a b. createWithNewRange h s a b = Inr (sel, h')"
    by blast
  from * show "sel = Property (length h)" and "length h' = Suc (length h)"
    by (auto simp: createWithNewRange_newRange newRange_def)
next
  assume res: "truncateWith h s (Property that) = Inr (sel2, h2)"
  let ?goal = "(sel2 = Property s \<and> h2 = h \<and> \<not> overlaps h s (Property that) False) \<or>
      (sel2 = NullSelection \<and> h2 = h) \<or>
      ((\<exists>a b. createWithNewRange h s a b = Inr (sel2, h2)) \<and>
       sel2 = Property (length h) \<and> length h2 = Suc (length h))"
  from truncateWith_outcomes [of h s that] show ?goal
  proof (elim disjE conjE exE)
    assume eq: "truncateWith h s (Property that) = Inl UnsupportedTruncation"
    from res [unfolded eq] show ?goal by simp
  next
    assume eq: "truncateWith h s (Property that) = Inl IllegalState"
    from res [unfolded eq] show ?goal by simp
  next
    assume no: "\<not> overlaps h s (Property that) False"
      and eq: "truncateWith h s (Property that) = Inr (Property s, h)"
    from res [unfolded eq] no show ?goal by simp
  next
    assume eq: "truncateWith h s (Property that) = Inr (NullSelection, h)"
    from res [unfolded eq] show ?goal by simp
  next
    fix a b
    assume eq: "truncateWith h s (Property that) = createWithNewRange h s a b"
    note new = res [unfolded eq]
    from new have "sel2 = Property (length h)" and "length h2 = Suc (length h)"
      by (auto simp: createWithNewRange_newRange newRange_def)
    with new show ?goal by blast
  qed
qed

theorem null_selection_is_identity_witness:
  "expand [rangeOn [''p''] 0 10, rangeOn [''p''] 5 15] 0 (Property 1) =
     Inr (Property 2, [rangeOn [''p''] 0 10, rangeOn [''p''] 5 15] @ [rangeOn [''p''] 0 15]) \<and>
   (\<exists>a b. createWithNewRange [rangeOn [''p''] 0 10, rangeOn [''p''] 5 15] 0 a b =
     Inr (Property 2, [rangeOn [''p''] 0 10, rangeOn [''p''] 5 15] @ [rangeOn [''p''] 0 15])) \<and>
   truncateWith [rangeOn [''p''] 0 10, rangeOn [''p''] 5 15] 0 (Property 1) =
     Inr (Property 2, [rangeOn [''p''] 0 10, rangeOn [''p''] 5 15] @ [rangeOn [''p''] 0 5]) \<and>
   (\<exists>a b. createWithNewRange [rangeOn [''p''] 0 10, rangeOn [''p''] 5 15] 0 a b =
     Inr (Property 2, [rangeOn [''p''] 0 10, rangeOn [''p''] 5 15] @ [rangeOn [''p''] 0 5]))"
proof -
  let ?H = "[rangeOn [''p''] 0 10, rangeOn [''p''] 5 15]"
  have ex: "expand ?H 0 (Property 1) = Inr (Property 2, ?H @ [rangeOn [''p''] 0 15])"
    by (simp add: expand_def createWithNewRange_newRange newRange_def withRange_def
        rangeOn_def)
  have tr: "truncateWith ?H 0 (Property 1) = Inr (Property 2, ?H @ [rangeOn [''p''] 0 5])"
    by (simp add: truncateWith_def isInsideOf_def overlaps_def createWithNewRange_newRange
        newRange_def withRange_def rangeOn_def)
  have ne: "Property 2 \<noteq> Property 0" "Property 2 \<noteq> NullSelection"
    by simp_all
  note inst = null_selection_is_identity
      [where h = ?H and s = 0 and that = 1
         and sel = "Property 2" and h' = "?H @ [rangeOn [''p''] 0 15]"
         and ?sel2.0 = "Property 2" and ?h2.0 = "?H @ [rangeOn [''p''] 0 5]"]
  from inst ex have e1: "\<exists>a b. createWithNewRange ?H 0 a b =
      Inr (Property 2, ?H @ [rangeOn [''p''] 0 15])"
    by blast
  from inst tr ne have e2: "\<exists>a b. createWithNewRange ?H 0 a b =
      Inr (Property 2, ?H @ [rangeOn [''p''] 0 5])"
    by blast
  from ex e1 tr e2 show ?thesis by (intro conjI)
qed

text \<open>
  The claim as stated has every other successful path of the two transforms produce a
  new instance. \<open>[0,10]\<close> truncated with the disjoint \<open>[12,20]\<close> returns the receiver
  itself, and \<open>[3,6]\<close> truncated with \<open>[0,10]\<close> returns the null selection; in both the
  store is the one before the call.
\<close>

theorem truncateWith_other_paths_counterexample:
  "truncateWith [rangeOn [''p''] 0 10, rangeOn [''p''] 12 20] 0 (Property 1) =
     Inr (Property 0, [rangeOn [''p''] 0 10, rangeOn [''p''] 12 20]) \<and>
   truncateWith [rangeOn [''p''] 3 6, rangeOn [''p''] 0 10] 0 (Property 1) =
     Inr (NullSelection, [rangeOn [''p''] 3 6, rangeOn [''p''] 0 10])"
  by (simp add: truncateWith_def isInsideOf_def overlaps_def contains_def rangeOn_def)

subsection \<open>Expansion\<close>

text \<open>
  Claim C7. For two property-scoped selections on the same path, \<open>expand\<close> returns a new
  instance whose offsets are the minimum of the two starts and the maximum of the two
  ends; so \<open>expand(a, b)\<close> and \<open>expand(b, a)\<close> have the same range, and \<open>expand(a, a)\<close>
  has the range of \<open>a\<close>. On different paths \<open>expand\<close> fails with the incompatible-path
  error.
\<close>

theorem expand_range:
  "(path (h ! a) = path (h ! b) \<longrightarrow>
      expand h a (Property b) =
        newRange h a (min (startOffset (h ! a)) (startOffset (h ! b)))
                     (max (endOffset (h ! a)) (endOffset (h ! b))) \<and>
      resultRange (expand h a (Property b)) = resultRange (expand h b (Property a))) \<and>
   resultRange (expand h a (Property a)) = Some (startOffset (h ! a), endOffset (h ! a)) \<and>
   (path (h ! a) \<noteq> path (h ! b) \<longrightarrow> expand h a (Property b) = Inl IncompatiblePath)"
  by (auto simp: expand_def createWithNewRange_newRange newRange_def resultRange_def
      withRange_def Let_def min.commute max.commute)

theorem expand_range_witness:
  "expand [rangeOn [''p''] 0 10, rangeOn [''p''] 5 15] 0 (Property 1) =
     Inr (Property 2, [rangeOn [''p''] 0 10, rangeOn [''p''] 5 15, rangeOn [''p''] 0 15]) \<and>
   resultRange (expand [rangeOn [''p''] 0 10, rangeOn [''p''] 5 15] 0 (Property 1)) =
     resultRange (expand [rangeOn [''p''] 0 10, rangeOn [''p''] 5 15] 1 (Property 0)) \<and>
   expand [rangeOn [''p''] 0 10, rangeOn [''q''] 5 15] 0 (Property 1) = Inl IncompatiblePath"
proof -
  let ?H = "[rangeOn [''p''] 0 10, rangeOn [''p''] 5 15]"
  let ?K = "[rangeOn [''p''] 0 10, rangeOn [''q''] 5 15]"
  have same: "path (?H ! 0) = path (?H ! 1)"
    by (simp add: rangeOn_def)
  have other: "path (?K ! 0) \<noteq> path (?K ! 1)"
    by (simp add: rangeOn_def)
  from same expand_range [of ?H 0 1]
  have "expand ?H 0 (Property 1) =
          newRange ?H 0 (min (startOffset (?H ! 0)) (startOffset (?H ! 1)))
                        (max (endOffset (?H ! 0)) (endOffset (?H ! 1)))"
    and sym: "resultRange (expand ?H 0 (Property 1)) = resultRange (expand ?H 1 (Property 0))"
    by blast+
  then have "expand ?H 0 (Property 1) =
      Inr (Property 2, [rangeOn [''p''] 0 10, rangeOn [''p''] 5 15, rangeOn [''p''] 0 15])"
    by (simp add: rangeOn_def newRange_def withRange_def)
  moreover from other expand_range [of ?K 0 1]
  have "expand ?K 0 (Property 1) = Inl IncompatiblePath"
    by blast
  ultimately show ?thesis using sym by simp
qed

subsection \<open>Truncation\<close>

lemma truncateWith_not_IllegalState:
  "truncateWith h this other \<noteq> Inl IllegalState"
  by (cases other)
     (auto simp: truncateWith_def createWithNewRange_newRange newRange_def isInsideOf_def
        contains_def overlaps_def Let_def)

lemma truncateWith_not_IncompatiblePath:
  "truncateWith h this other \<noteq> Inl IncompatiblePath"
  by (cases other)
     (auto simp: truncateWith_def createWithNewRange_newRange newRange_def Let_def)

text \<open>
  Claim C2, as amended. For two property-scoped selections, \<open>truncateWith\<close> first
  tests whether \<open>other\<close> is strictly inside \<open>this\<close> and then fails with the
  unsupported-truncation error; when \<open>other\<close> is not strictly inside \<open>this\<close> and the
  two do not overlap, it returns \<open>this\<close> itself, with the store unchanged.
\<close>

theorem truncateWith_contained_or_disjoint:
  "(isInsideOf h that (Property this) True \<longrightarrow>
      truncateWith h this (Property that) = Inl UnsupportedTruncation) \<and>
   (\<not> isInsideOf h that (Property this) True \<and> \<not> overlaps h this (Property that) False \<longrightarrow>
      truncateWith h this (Property that) = Inr (Property this, h))"
  by (simp add: truncateWith_def)

theorem truncateWith_contained_or_disjoint_witness:
  "truncateWith [rangeOn [''p''] 0 10, rangeOn [''p''] 3 6] 0 (Property 1) =
     Inl UnsupportedTruncation \<and>
   truncateWith [rangeOn [''p''] 0 10, rangeOn [''p''] 20 30] 0 (Property 1) =
     Inr (Property 0, [rangeOn [''p''] 0 10, rangeOn [''p''] 20 30])"
  using truncateWith_contained_or_disjoint [of "[rangeOn [''p''] 0 10, rangeOn [''p''] 3 6]" 1 0]
        truncateWith_contained_or_disjoint [of "[rangeOn [''p''] 0 10, rangeOn [''p''] 20 30]" 1 0]
  by (simp add: isInsideOf_def overlaps_def rangeOn_def)

text \<open>
  The claim as stated returns \<open>this\<close> whenever the two do not overlap. \<open>[7,4]\<close> is
  strictly inside \<open>[5,6]\<close> by the test of \<open>isInsideOf\<close> and does not overlap it by the
  test of \<open>overlaps\<close>; \<open>truncateWith\<close> throws, since the containment test comes first.
\<close>

theorem truncateWith_disjoint_counterexample:
  "\<not> overlaps [rangeOn [''p''] 5 6, rangeOn [''p''] 7 4] 0 (Property 1) False \<and>
   isInsideOf [rangeOn [''p''] 5 6, rangeOn [''p''] 7 4] 1 (Property 0) True \<and>
   truncateWith [rangeOn [''p''] 5 6, rangeOn [''p''] 7 4] 0 (Property 1) =
     Inl UnsupportedTruncation \<and>
   truncateWith [rangeOn [''p''] 5 6, rangeOn [''p''] 7 4] 0 (Property 1) \<noteq>
     Inr (Property 0, [rangeOn [''p''] 5 6, rangeOn [''p''] 7 4])"
  by (simp add: truncateWith_def isInsideOf_def overlaps_def rangeOn_def)

text \<open>
  When \<open>other\<close> has \<open>startOffset <= endOffset\<close> the two tests exclude each other (a
  selection strictly inside \<open>this\<close> overlaps it), and no overlap alone gives \<open>this\<close>.
\<close>

lemma strictly_inside_overlaps:
  assumes "invariant (h ! that)" and "isInsideOf h that (Property this) True"
  shows "overlaps h this (Property that) False"
  using assms by (auto simp: isInsideOf_def overlaps_def invariant_def)

lemma truncateWith_disjoint_wellformed:
  assumes "invariant (h ! that)" and "\<not> overlaps h this (Property that) False"
  shows "truncateWith h this (Property that) = Inr (Property this, h)"
  using assms strictly_inside_overlaps [of h that this]
  by (auto simp: truncateWith_def)

text \<open>
  Claim C4. For two property-scoped selections on the same path, each with
  \<open>startOffset <= endOffset\<close>, that overlap non-strictly and with \<open>other\<close> not strictly
  inside \<open>this\<close>, the last branch of the case analysis of \<open>truncateWith\<close>, the only
  place that raises the illegal-state error, is not reached. (The lemma
  \<open>truncateWith_not_IllegalState\<close> shows that no pair with integer offsets reaches
  it; \<open>NaN_examples\<close> below has a pair with a \<open>NaN\<close> offset that does.)
\<close>

theorem truncateWith_fallback_unreachable:
  assumes "path (h ! this) = path (h ! that)"
    and "invariant (h ! this)" and "invariant (h ! that)"
    and "\<not> isInsideOf h that (Property this) True"
    and "overlaps h this (Property that) False"
  shows "truncateWith h this (Property that) \<noteq> Inl IllegalState"
  by (rule truncateWith_not_IllegalState)

theorem truncateWith_fallback_unreachable_witness:
  "invariant (rangeOn [''p''] 3 6) \<and> invariant (rangeOn [''p''] 0 10) \<and>
   overlaps [rangeOn [''p''] 3 6, rangeOn [''p''] 0 10] 0 (Property 1) False \<and>
   \<not> isInsideOf [rangeOn [''p''] 3 6, rangeOn [''p''] 0 10] 1 (Property 0) True \<and>
   truncateWith [rangeOn [''p''] 3 6, rangeOn [''p''] 0 10] 0 (Property 1) \<noteq> Inl IllegalState"
  using truncateWith_fallback_unreachable [of "[rangeOn [''p''] 3 6, rangeOn [''p''] 0 10]" 0 1]
  by (simp add: isInsideOf_def overlaps_def invariant_def rangeOn_def)

text \<open>
  Claim C5, as amended. \<open>truncateWith\<close> with a property-scoped \<open>other\<close> on a different
  path raises nothing: \<open>overlaps\<close> is false across paths, so \<open>this\<close> itself is returned
  and the store is unchanged. No call of \<open>truncateWith\<close> raises the incompatible-path
  error; among the transforms only \<open>expand\<close> does.
\<close>

theorem truncateWith_different_path:
  "(path (h ! this) \<noteq> path (h ! that) \<longrightarrow>
      truncateWith h this (Property that) = Inr (Property this, h)) \<and>
   truncateWith h this other \<noteq> Inl IncompatiblePath"
  using truncateWith_not_IncompatiblePath [of h this other]
  by (auto simp: truncateWith_def isInsideOf_def overlaps_def)

theorem truncateWith_different_path_witness:
  "truncateWith [rangeOn [''p1'', ''content''] 3 6, rangeOn [''p2'', ''content''] 0 4]
     0 (Property 1) =
   Inr (Property 0, [rangeOn [''p1'', ''content''] 3 6, rangeOn [''p2'', ''content''] 0 4])"
  using truncateWith_different_path
    [of "[rangeOn [''p1'', ''content''] 3 6, rangeOn [''p2'', ''content''] 0 4]" 0 1]
  by (simp add: rangeOn_def)

text \<open>
  The claim as stated fails: \<open>[0,10]\<close> on \<open>p1\<close> truncated with \<open>[5,15]\<close> on \<open>p2\<close>
  returns the receiver, not the incompatible-path error.
\<close>

theorem truncateWith_different_path_counterexample:
  "path (rangeOn [''p1''] 0 10) \<noteq> path (rangeOn [''p2''] 5 15) \<and>
   truncateWith [rangeOn [''p1''] 0 10, rangeOn [''p2''] 5 15] 0 (Property 1) =
     Inr (Property 0, [rangeOn [''p1''] 0 10, rangeOn [''p2''] 5 15]) \<and>
   truncateWith [rangeOn [''p1''] 0 10, rangeOn [''p2''] 5 15] 0 (Property 1) \<noteq>
     Inl IncompatiblePath"
  by (simp add: truncateWith_def isInsideOf_def overlaps_def rangeOn_def)

text \<open>
  Claim C1, as amended. For two property-scoped selections on the same path that overlap
  non-strictly, with \<open>other\<close> not strictly inside \<open>this\<close>, \<open>truncateWith\<close> returns the
  contiguous remainder:
  \<^item> \<open>other\<close> straddles the left side of \<open>this\<close>: a new \<open>[other.endOffset, this.endOffset]\<close>;
  \<^item> \<open>other\<close> straddles the right side of \<open>this\<close>: a new \<open>[this.startOffset, other.startOffset]\<close>;
  \<^item> equal start offsets: the null selection if \<open>other\<close> reaches or exceeds the end of
    \<open>this\<close>, else a new \<open>[other.endOffset, this.endOffset]\<close>;
  \<^item> equal end offsets: the null selection if \<open>other\<close> starts at or before the start of
    \<open>this\<close>, else a new \<open>[this.startOffset, other.startOffset]\<close>;
  \<^item> \<open>other\<close> contains \<open>this\<close> (non-strictly): the null selection.

  A new range is a new instance on the path of \<open>this\<close>, not reversed, with its container
  and surface; the null selection is returned with the store unchanged.
\<close>

theorem truncateWith_case_split:
  assumes "path (h ! this) = path (h ! that)"
    and "overlaps h this (Property that) False"
    and "\<not> isInsideOf h that (Property this) True"
  shows
  "(straddlesLeftSide (h ! this) (h ! that) \<longrightarrow>
      truncateWith h this (Property that) =
        newRange h this (endOffset (h ! that)) (endOffset (h ! this))) \<and>
   (straddlesRightSide (h ! this) (h ! that) \<longrightarrow>
      truncateWith h this (Property that) =
        newRange h this (startOffset (h ! this)) (startOffset (h ! that))) \<and>
   (startOffset (h ! this) = startOffset (h ! that) \<and>
    endOffset (h ! this) \<le> endOffset (h ! that) \<longrightarrow>
      truncateWith h this (Property that) = Inr (NullSelection, h)) \<and>
   (startOffset (h ! this) = startOffset (h ! that) \<and>
    endOffset (h ! that) < endOffset (h ! this) \<longrightarrow>
      truncateWith h this (Property that) =
        newRange h this (endOffset (h ! that)) (endOffset (h ! this))) \<and>
   (endOffset (h ! this) = endOffset (h ! that) \<and>
    startOffset (h ! that) \<le> startOffset (h ! this) \<longrightarrow>
      truncateWith h this (Property that) = Inr (NullSelection, h)) \<and>
   (endOffset (h ! this) = endOffset (h ! that) \<and>
    startOffset (h ! this) < startOffset (h ! that) \<longrightarrow>
      truncateWith h this (Property that) =
        newRange h this (startOffset (h ! this)) (startOffset (h ! that))) \<and>
   (contains h that (Property this) False \<longrightarrow>
      truncateWith h this (Property that) = Inr (NullSelection, h))"
  using assms
  by (auto simp: truncateWith_def createWithNewRange_newRange isInsideOf_def contains_def
      overlaps_def Let_def straddlesLeftSide_def straddlesRightSide_def)

text \<open>
  The two examples of the claim, and a left straddle: \<open>[0,10]\<close> truncated with \<open>[5,15]\<close>
  is a new \<open>[0,5]\<close>, \<open>[0,10]\<close> truncated with \<open>[0,10]\<close> is the null selection, and
  \<open>[5,15]\<close> truncated with \<open>[0,10]\<close> is a new \<open>[10,15]\<close>.
\<close>

theorem truncateWith_case_split_witness:
  "truncateWith [rangeOn [''p''] 0 10, rangeOn [''p''] 5 15] 0 (Property 1) =
     Inr (Property 2, [rangeOn [''p''] 0 10, rangeOn [''p''] 5 15, rangeOn [''p''] 0 5]) \<and>
   truncateWith [rangeOn [''p''] 0 10, rangeOn [''p''] 0 10] 0 (Property 1) =
     Inr (NullSelection, [rangeOn [''p''] 0 10, rangeOn [''p''] 0 10]) \<and>
   truncateWith [rangeOn [''p''] 5 15, rangeOn [''p''] 0 10] 0 (Property 1) =
     Inr (Property 2, [rangeOn [''p''] 5 15, rangeOn [''p''] 0 10, rangeOn [''p''] 10 15])"
  using truncateWith_case_split [of "[rangeOn [''p''] 0 10, rangeOn [''p''] 5 15]" 0 1]
        truncateWith_case_split [of "[rangeOn [''p''] 0 10, rangeOn [''p''] 0 10]" 0 1]
        truncateWith_case_split [of "[rangeOn [''p''] 5 15, rangeOn [''p''] 0 10]" 0 1]
  by (simp add: isInsideOf_def contains_def overlaps_def straddlesLeftSide_def
      straddlesRightSide_def rangeOn_def newRange_def withRange_def)

text \<open>
  The claim as stated gives \<open>[other.endOffset, this.endOffset]\<close> for an \<open>other\<close> that
  straddles the right side. \<open>[5,15]\<close> straddles the right side of \<open>[0,10]\<close>, the two
  overlap and \<open>[5,15]\<close> is not strictly inside \<open>[0,10]\<close>; the result is not a new
  \<open>[15,10]\<close> (it is the new \<open>[0,5]\<close> of the witness above).
\<close>

theorem truncateWith_right_straddle_counterexample:
  "straddlesRightSide (rangeOn [''p''] 0 10) (rangeOn [''p''] 5 15) \<and>
   overlaps [rangeOn [''p''] 0 10, rangeOn [''p''] 5 15] 0 (Property 1) False \<and>
   \<not> isInsideOf [rangeOn [''p''] 0 10, rangeOn [''p''] 5 15] 1 (Property 0) True \<and>
   truncateWith [rangeOn [''p''] 0 10, rangeOn [''p''] 5 15] 0 (Property 1) \<noteq>
     newRange [rangeOn [''p''] 0 10, rangeOn [''p''] 5 15] 0 15 10 \<and>
   truncateWith [rangeOn [''p''] 0 10, rangeOn [''p''] 5 15] 0 (Property 1) =
     newRange [rangeOn [''p''] 0 10, rangeOn [''p''] 5 15] 0 0 5"
  by (simp add: truncateWith_def createWithNewRange_newRange isInsideOf_def overlaps_def
      Let_def straddlesRightSide_def rangeOn_def newRange_def withRange_def)

subsection \<open>Serialisation\<close>

text \<open>
  Claim C8. \<open>fromJSON(toJSON(s))\<close> succeeds and returns a new instance equal to \<open>s\<close> in
  every field: path, startOffset, endOffset, reverse, containerId and surfaceId. When
  the object has no \<open>endOffset\<close> key (and a path and a numeric \<open>startOffset\<close>, which the
  constructor requires), \<open>fromJSON\<close> returns an instance whose \<open>endOffset\<close> is its
  \<open>startOffset\<close>: a collapsed selection.
\<close>

theorem fromJSON_toJSON_roundtrip:
  "fromJSON h (toJSON h s) = Inr (length h, h @ [h ! s]) \<and>
   (json_endOffset j = None \<and> json_path j = Some p \<and> json_startOffset j = Some a \<longrightarrow>
      fromJSON h j =
        Inr (length h,
             h @ [\<lparr>path = p, startOffset = a, endOffset = a,
                   reverse = Boolean (json_reverse j),
                   containerId = json_containerId j, surfaceId = json_surfaceId j\<rparr>])) \<and>
   (json_endOffset j = None \<and> fromJSON h j = Inr (r, h') \<longrightarrow>
      isCollapsed h' r \<and> json_startOffset j = Some (startOffset (h' ! r)))"
  by (auto simp: fromJSON_def toJSON_def new_PropertySelection_def alloc_def Boolean_def
      isCollapsed_def Let_def split: if_splits option.splits)

theorem fromJSON_toJSON_roundtrip_witness:
  "fromJSON [rangeOn [''p1'', ''content''] 3 6] (toJSON [rangeOn [''p1'', ''content''] 3 6] 0) =
     Inr (1, [rangeOn [''p1'', ''content''] 3 6, rangeOn [''p1'', ''content''] 3 6]) \<and>
   fromJSON [] \<lparr>json_type = ''property'', json_path = Some [''p1'', ''content''],
               json_startOffset = Some 4, json_endOffset = None, json_reverse = None,
               json_containerId = None, json_surfaceId = None\<rparr> =
     Inr (0, [rangeOn [''p1'', ''content''] 4 4]) \<and>
   isCollapsed [rangeOn [''p1'', ''content''] 4 4] 0"
  using fromJSON_toJSON_roundtrip
    [where h = "[rangeOn [''p1'', ''content''] 3 6]" and s = 0]
    fromJSON_toJSON_roundtrip
    [where h = "[]"
       and j = "\<lparr>json_type = ''property'', json_path = Some [''p1'', ''content''],
                 json_startOffset = Some 4, json_endOffset = None, json_reverse = None,
                 json_containerId = None, json_surfaceId = None\<rparr>"
       and p = "[''p1'', ''content'']" and a = 4 and r = 0
       and h' = "[rangeOn [''p1'', ''content''] 4 4]"]
  by (simp add: rangeOn_def Boolean_def)

subsection \<open>The integer model is the general model on integer offsets\<close>

text \<open>
  On a store of instances with integer offsets, and on valid references, every
  predicate and transform of the general model returns what the integer model returns.
\<close>

lemma liftResult_simps:
  "liftResult (Inl e) = Inl e"
  "liftResult (Inr (x, h')) = Inr (x, map lift h')"
  by (simp_all add: liftResult_def)

lemma raw_isInsideOf_lift:
  assumes "this < length h" and "validSelection h other"
  shows "raw_isInsideOf (map lift h) this other strict = isInsideOf h this other strict"
  using assms
  by (cases other)
     (auto simp: raw_isInsideOf_def isInsideOf_def validSelection_def lift_def js_gt_def
        js_ge_def)

lemma raw_contains_lift:
  assumes "this < length h" and "validSelection h other"
  shows "raw_contains (map lift h) this other strict = contains h this other strict"
  using assms
  by (cases other)
     (auto simp: raw_contains_def contains_def validSelection_def raw_isInsideOf_lift)

lemma raw_overlaps_lift:
  assumes "this < length h" and "validSelection h other"
  shows "raw_overlaps (map lift h) this other strict = overlaps h this other strict"
  using assms
  by (cases other)
     (auto simp: raw_overlaps_def overlaps_def validSelection_def lift_def js_gt_def
        js_ge_def)

lemma raw_new_PropertySelection_lift:
  "raw_new_PropertySelection (map lift h) p (liftArgument a) (Num b) rv cid sid =
     liftResult (new_PropertySelection h p a b rv cid sid)"
  by (auto simp: raw_new_PropertySelection_def new_PropertySelection_def alloc_def
      liftResult_simps liftArgument_def isNumber_def lift_def split: option.splits)

lemma raw_fromJSON_lift:
  "raw_fromJSON (map lift h) (liftJSON j) = liftResult (fromJSON h j)"
proof (cases "json_startOffset j")
  case None
  then show ?thesis
    by (cases "json_endOffset j")
       (simp_all add: raw_fromJSON_def fromJSON_def liftJSON_def Let_def liftArgument_def
          raw_new_PropertySelection_def new_PropertySelection_def isNumber_def
          liftResult_simps)
next
  case (Some a)
  have new: "raw_new_PropertySelection (map lift h) p (Num a) (Num b) rv cid sid =
      liftResult (new_PropertySelection h p (Some a) b rv cid sid)" for p b rv cid sid
    using raw_new_PropertySelection_lift [of h p "Some a" b rv cid sid]
    by (simp add: liftArgument_def)
  from Some show ?thesis
    by (cases "json_endOffset j")
       (simp_all add: raw_fromJSON_def fromJSON_def liftJSON_def Let_def liftArgument_def new)
qed

lemma raw_createWithNewRange_lift:
  assumes "this < length h"
  shows "raw_createWithNewRange (map lift h) this (Num a) (Num b) =
     liftResult (createWithNewRange h this a b)"
  using assms
  by (simp add: raw_createWithNewRange_def createWithNewRange_def
      raw_new_PropertySelection_def new_PropertySelection_def alloc_def isNumber_def
      liftResult_simps lift_def Boolean_def)

lemma raw_collapse_lift:
  assumes "this < length h"
  shows "raw_collapse (map lift h) this direction = liftResult (collapse h this direction)"
proof -
  have offs:
    "raw_startOffset (map lift h ! this) = Num (startOffset (h ! this))"
    "raw_endOffset (map lift h ! this) = Num (endOffset (h ! this))"
    using assms by (simp_all add: lift_def)
  from assms show ?thesis
    by (simp add: raw_collapse_def collapse_def Let_def offs raw_createWithNewRange_lift
        del: nth_map)
qed

lemma raw_expand_lift:
  assumes "this < length h" and "validSelection h other"
  shows "raw_expand (map lift h) this other = liftResult (expand h this other)"
proof (cases other)
  case NullSelection
  then show ?thesis by (simp add: raw_expand_def expand_def liftResult_simps)
next
  case (Property that)
  with assms have that: "that < length h" by (simp add: validSelection_def)
  have offs:
    "raw_path (map lift h ! this) = path (h ! this)"
    "raw_path (map lift h ! that) = path (h ! that)"
    "raw_startOffset (map lift h ! this) = Num (startOffset (h ! this))"
    "raw_endOffset (map lift h ! this) = Num (endOffset (h ! this))"
    "raw_startOffset (map lift h ! that) = Num (startOffset (h ! that))"
    "raw_endOffset (map lift h ! that) = Num (endOffset (h ! that))"
    using assms(1) that by (simp_all add: lift_def)
  from assms(1) show ?thesis
    by (simp add: Property raw_expand_def expand_def Let_def offs
        raw_createWithNewRange_lift liftResult_simps del: nth_map)
qed

lemma raw_truncateWith_lift:
  assumes "this < length h" and "validSelection h other"
  shows "raw_truncateWith (map lift h) this other = liftResult (truncateWith h this other)"
proof (cases other)
  case NullSelection
  then show ?thesis by (simp add: raw_truncateWith_def truncateWith_def liftResult_simps)
next
  case (Property that)
  with assms have that: "that < length h" by (simp add: validSelection_def)
  have offs:
    "raw_startOffset (map lift h ! this) = Num (startOffset (h ! this))"
    "raw_endOffset (map lift h ! this) = Num (endOffset (h ! this))"
    "raw_startOffset (map lift h ! that) = Num (startOffset (h ! that))"
    "raw_endOffset (map lift h ! that) = Num (endOffset (h ! that))"
    using assms(1) that by (simp_all add: lift_def)
  have preds:
    "raw_isInsideOf (map lift h) that (Property this) True = isInsideOf h that (Property this) True"
    "raw_overlaps (map lift h) this (Property that) False = overlaps h this (Property that) False"
    "raw_contains (map lift h) that (Property this) False = contains h that (Property this) False"
    using assms(1) that
    by (simp_all add: raw_isInsideOf_lift raw_overlaps_lift raw_contains_lift validSelection_def)
  from assms(1) show ?thesis
    by (simp add: Property raw_truncateWith_def truncateWith_def Let_def offs preds
        js_gt_def js_ge_def raw_createWithNewRange_lift liftResult_simps del: nth_map)
qed

subsection \<open>The invariant\<close>

lemma js_le_iff: "js_le x y \<longleftrightarrow> (\<exists>a b. x = Num a \<and> y = Num b \<and> a \<le> b)"
  by (cases x; cases y) simp_all

lemma js_lt_iff: "js_lt x y \<longleftrightarrow> (\<exists>a b. x = Num a \<and> y = Num b \<and> a < b)"
  by (cases x; cases y) simp_all

lemma raw_new_PropertySelection_invariant:
  "raw_new_PropertySelection h p a b rv cid sid = Inr (r, h') \<Longrightarrow>
     raw_invariant (h' ! r) \<longleftrightarrow> js_le a b"
  by (auto simp: raw_new_PropertySelection_def raw_invariant_def split: if_splits)

lemma raw_fromJSON_invariant:
  "raw_fromJSON h j = Inr (r, h') \<Longrightarrow>
     raw_invariant (h' ! r) \<longleftrightarrow>
       js_le (rawjson_startOffset j)
         (case rawjson_endOffset j of Some e \<Rightarrow> e | None \<Rightarrow> rawjson_startOffset j)"
  by (simp add: raw_fromJSON_def Let_def raw_new_PropertySelection_invariant)

lemma raw_createWithNewRange_invariant:
  "raw_createWithNewRange h this c d = Inr (sel, h') \<Longrightarrow>
     raw_selection_invariant h' sel \<longleftrightarrow> js_le c d"
  by (auto simp: raw_createWithNewRange_def raw_selection_invariant_def
      raw_new_PropertySelection_invariant split: sum.splits prod.splits)

lemma raw_selection_invariant_simps:
  "raw_selection_invariant h NullSelection"
  "raw_selection_invariant h (Property r) = raw_invariant (h ! r)"
  by (simp_all add: raw_selection_invariant_def)

lemma raw_createWithNewRange_invariantI:
  "raw_createWithNewRange h this c d = Inr (sel, h') \<Longrightarrow> js_le c d \<Longrightarrow>
     raw_selection_invariant h' sel"
  by (simp add: raw_createWithNewRange_invariant)

lemma raw_collapse_invariant:
  assumes "raw_invariant (h ! this)" and "raw_collapse h this direction = Inr (sel, h')"
  shows "raw_selection_invariant h' sel"
proof -
  from assms(1) obtain a b where
    "raw_startOffset (h ! this) = Num a" "raw_endOffset (h ! this) = Num b"
    by (auto simp: raw_invariant_def js_le_iff)
  with assms(2) show ?thesis
    by (auto simp: raw_collapse_def Let_def split: if_splits
        intro: raw_createWithNewRange_invariantI)
qed

lemma raw_expand_invariant:
  assumes "raw_invariant (h ! this)" and "numericOffsets h other"
    and "raw_expand h this other = Inr (sel, h')"
  shows "raw_selection_invariant h' sel"
proof (cases other)
  case NullSelection
  with assms show ?thesis by (auto simp: raw_expand_def raw_selection_invariant_simps)
next
  case (Property that)
  from assms(1) obtain a b where ab:
    "raw_startOffset (h ! this) = Num a" "raw_endOffset (h ! this) = Num b" "a \<le> b"
    by (auto simp: raw_invariant_def js_le_iff)
  from assms(2) Property obtain c d where cd:
    "raw_startOffset (h ! that) = Num c" "raw_endOffset (h ! that) = Num d"
    by (auto simp: numericOffsets_def isInteger_def split: jsvalue.splits)
  from assms(3) Property ab cd have
    "raw_createWithNewRange h this (Num (min a c)) (Num (max b d)) = Inr (sel, h')"
    by (simp add: raw_expand_def Let_def split: if_splits)
  moreover from ab(3) have "js_le (Num (min a c)) (Num (max b d))"
    by (simp add: min_le_iff_disj le_max_iff_disj)
  ultimately show ?thesis by (rule raw_createWithNewRange_invariantI)
qed

lemma raw_truncateWith_invariant:
  assumes "raw_invariant (h ! this)" and "numericOffsets h other"
    and "raw_truncateWith h this other = Inr (sel, h')"
  shows "raw_selection_invariant h' sel"
proof (cases other)
  case NullSelection
  with assms show ?thesis by (auto simp: raw_truncateWith_def raw_selection_invariant_simps)
next
  case (Property that)
  from assms(1) obtain a b where ab:
    "raw_startOffset (h ! this) = Num a" "raw_endOffset (h ! this) = Num b" "a \<le> b"
    by (auto simp: raw_invariant_def js_le_iff)
  from assms(2) Property obtain c d where cd:
    "raw_startOffset (h ! that) = Num c" "raw_endOffset (h ! that) = Num d"
    by (auto simp: numericOffsets_def isInteger_def split: jsvalue.splits)
  from assms(1,3) Property ab cd show ?thesis
    by (auto simp: raw_truncateWith_def Let_def js_gt_def js_ge_def
        raw_selection_invariant_simps
        split: if_splits intro: raw_createWithNewRange_invariantI)
qed

text \<open>
  Claim C3, as amended. Nothing compares the two offsets when an instance is built:
  the constructor, \<open>fromJSON\<close> and \<open>createWithNewRange\<close> store what they are given, and
  the instance they return satisfies \<open>startOffset <= endOffset\<close> exactly when that
  comparison holds of the given offsets (for \<open>fromJSON\<close> without an \<open>endOffset\<close> key:
  of \<open>startOffset\<close> and itself, so unless it is \<open>NaN\<close>). \<open>collapse\<close> returns a selection
  that satisfies the invariant whenever its receiver satisfies it; \<open>expand\<close> and
  \<open>truncateWith\<close> do so whenever their receiver satisfies it and the other selection is
  the null selection or has two integer offsets. The statement is about the general
  model: the offsets are whatever the constructor accepts.
\<close>

theorem invariant_through_public_interface:
  "(raw_new_PropertySelection h p a b rv cid sid = Inr (r, h1) \<longrightarrow>
      (raw_invariant (h1 ! r) \<longleftrightarrow> js_le a b)) \<and>
   (raw_fromJSON h j = Inr (r2, h2) \<longrightarrow>
      (raw_invariant (h2 ! r2) \<longleftrightarrow>
         js_le (rawjson_startOffset j)
           (case rawjson_endOffset j of Some e \<Rightarrow> e | None \<Rightarrow> rawjson_startOffset j))) \<and>
   (raw_createWithNewRange h this c d = Inr (s3, h3) \<longrightarrow>
      (raw_selection_invariant h3 s3 \<longleftrightarrow> js_le c d)) \<and>
   (raw_invariant (h ! this) \<and> raw_collapse h this direction = Inr (s4, h4) \<longrightarrow>
      raw_selection_invariant h4 s4) \<and>
   (raw_invariant (h ! this) \<and> numericOffsets h other \<and>
    raw_expand h this other = Inr (s5, h5) \<longrightarrow>
      raw_selection_invariant h5 s5) \<and>
   (raw_invariant (h ! this) \<and> numericOffsets h other \<and>
    raw_truncateWith h this other = Inr (s6, h6) \<longrightarrow>
      raw_selection_invariant h6 s6)"
proof (intro conjI impI)
  assume "raw_new_PropertySelection h p a b rv cid sid = Inr (r, h1)"
  then show "raw_invariant (h1 ! r) \<longleftrightarrow> js_le a b"
    by (rule raw_new_PropertySelection_invariant)
next
  assume "raw_fromJSON h j = Inr (r2, h2)"
  then show "raw_invariant (h2 ! r2) \<longleftrightarrow>
      js_le (rawjson_startOffset j)
        (case rawjson_endOffset j of Some e \<Rightarrow> e | None \<Rightarrow> rawjson_startOffset j)"
    by (rule raw_fromJSON_invariant)
next
  assume "raw_createWithNewRange h this c d = Inr (s3, h3)"
  then show "raw_selection_invariant h3 s3 \<longleftrightarrow> js_le c d"
    by (rule raw_createWithNewRange_invariant)
next
  assume "raw_invariant (h ! this) \<and> raw_collapse h this direction = Inr (s4, h4)"
  then show "raw_selection_invariant h4 s4"
    using raw_collapse_invariant by blast
next
  assume "raw_invariant (h ! this) \<and> numericOffsets h other \<and>
    raw_expand h this other = Inr (s5, h5)"
  then show "raw_selection_invariant h5 s5"
    using raw_expand_invariant by blast
next
  assume "raw_invariant (h ! this) \<and> numericOffsets h other \<and>
    raw_truncateWith h this other = Inr (s6, h6)"
  then show "raw_selection_invariant h6 s6"
    using raw_truncateWith_invariant by blast
qed

theorem invariant_through_public_interface_witness:
  "raw_new_PropertySelection
     [rawRangeOn [''p''] (Num 0) (Num 10), rawRangeOn [''p''] (Num 5) (Num 15)]
     (Some [''p'']) (Num 3) (Num 6) None None None =
     Inr (2, [rawRangeOn [''p''] (Num 0) (Num 10), rawRangeOn [''p''] (Num 5) (Num 15)] @
             [rawRangeOn [''p''] (Num 3) (Num 6)]) \<and>
   raw_invariant
     (([rawRangeOn [''p''] (Num 0) (Num 10), rawRangeOn [''p''] (Num 5) (Num 15)] @
       [rawRangeOn [''p''] (Num 3) (Num 6)]) ! 2) \<and>
   raw_invariant
     ([rawRangeOn [''p''] (Num 0) (Num 10), rawRangeOn [''p''] (Num 5) (Num 15)] ! 0) \<and>
   numericOffsets [rawRangeOn [''p''] (Num 0) (Num 10), rawRangeOn [''p''] (Num 5) (Num 15)]
     (Property 1) \<and>
   raw_collapse [rawRangeOn [''p''] (Num 0) (Num 10), rawRangeOn [''p''] (Num 5) (Num 15)]
     0 ''left'' =
     Inr (Property 2, [rawRangeOn [''p''] (Num 0) (Num 10), rawRangeOn [''p''] (Num 5) (Num 15)] @
                      [rawRangeOn [''p''] (Num 0) (Num 0)]) \<and>
   raw_selection_invariant
     ([rawRangeOn [''p''] (Num 0) (Num 10), rawRangeOn [''p''] (Num 5) (Num 15)] @
      [rawRangeOn [''p''] (Num 0) (Num 0)]) (Property 2) \<and>
   raw_expand [rawRangeOn [''p''] (Num 0) (Num 10), rawRangeOn [''p''] (Num 5) (Num 15)]
     0 (Property 1) =
     Inr (Property 2, [rawRangeOn [''p''] (Num 0) (Num 10), rawRangeOn [''p''] (Num 5) (Num 15)] @
                      [rawRangeOn [''p''] (Num 0) (Num 15)]) \<and>
   raw_selection_invariant
     ([rawRangeOn [''p''] (Num 0) (Num 10), rawRangeOn [''p''] (Num 5) (Num 15)] @
      [rawRangeOn [''p''] (Num 0) (Num 15)]) (Property 2) \<and>
   raw_truncateWith [rawRangeOn [''p''] (Num 0) (Num 10), rawRangeOn [''p''] (Num 5) (Num 15)]
     0 (Property 1) =
     Inr (Property 2, [rawRangeOn [''p''] (Num 0) (Num 10), rawRangeOn [''p''] (Num 5) (Num 15)] @
                      [rawRangeOn [''p''] (Num 0) (Num 5)]) \<and>
   raw_selection_invariant
     ([rawRangeOn [''p''] (Num 0) (Num 10), rawRangeOn [''p''] (Num 5) (Num 15)] @
      [rawRangeOn [''p''] (Num 0) (Num 5)]) (Property 2)"
proof -
  let ?H = "[rawRangeOn [''p''] (Num 0) (Num 10), rawRangeOn [''p''] (Num 5) (Num 15)]"
  have new: "raw_new_PropertySelection ?H (Some [''p'']) (Num 3) (Num 6) None None None =
      Inr (2, ?H @ [rawRangeOn [''p''] (Num 3) (Num 6)])"
    by (simp add: raw_new_PropertySelection_def isNumber_def Boolean_def rawRangeOn_def)
  have co: "raw_collapse ?H 0 ''left'' =
      Inr (Property 2, ?H @ [rawRangeOn [''p''] (Num 0) (Num 0)])"
    by (simp add: raw_collapse_def Let_def raw_createWithNewRange_def
        raw_new_PropertySelection_def isNumber_def Boolean_def rawRangeOn_def)
  have ex: "raw_expand ?H 0 (Property 1) =
      Inr (Property 2, ?H @ [rawRangeOn [''p''] (Num 0) (Num 15)])"
    by (simp add: raw_expand_def Let_def raw_createWithNewRange_def
        raw_new_PropertySelection_def isNumber_def Boolean_def rawRangeOn_def)
  have tr: "raw_truncateWith ?H 0 (Property 1) =
      Inr (Property 2, ?H @ [rawRangeOn [''p''] (Num 0) (Num 5)])"
    by (simp add: raw_truncateWith_def Let_def raw_isInsideOf_def raw_overlaps_def js_gt_def
        raw_createWithNewRange_def raw_new_PropertySelection_def isNumber_def Boolean_def
        rawRangeOn_def)
  have inv: "raw_invariant (?H ! 0)"
    by (simp add: raw_invariant_def rawRangeOn_def)
  have num: "numericOffsets ?H (Property 1)"
    by (simp add: numericOffsets_def isInteger_def rawRangeOn_def)
  have le: "js_le (Num 3) (Num 6)"
    by simp
  from new co ex tr inv num le
    invariant_through_public_interface
      [where h = ?H and this = 0 and p = "Some [''p'']" and a = "Num 3" and b = "Num 6"
         and rv = None and cid = None and sid = None
         and r = 2 and ?h1.0 = "?H @ [rawRangeOn [''p''] (Num 3) (Num 6)]"
         and direction = "''left''"
         and ?s4.0 = "Property 2" and ?h4.0 = "?H @ [rawRangeOn [''p''] (Num 0) (Num 0)]"
         and other = "Property 1"
         and ?s5.0 = "Property 2" and ?h5.0 = "?H @ [rawRangeOn [''p''] (Num 0) (Num 15)]"
         and ?s6.0 = "Property 2" and ?h6.0 = "?H @ [rawRangeOn [''p''] (Num 0) (Num 5)]"]
  show ?thesis by blast
qed

text \<open>
  The claim as stated fails at the constructor: it accepts a path, \<open>startOffset = 10\<close>
  and \<open>endOffset = 5\<close>, and the instance it returns has \<open>startOffset > endOffset\<close>.
\<close>

theorem constructor_invariant_counterexample:
  "raw_new_PropertySelection [] (Some [''p1'', ''content'']) (Num 10) (Num 5) None None None =
     Inr (0, [rawRangeOn [''p1'', ''content''] (Num 10) (Num 5)]) \<and>
   \<not> raw_invariant ([rawRangeOn [''p1'', ''content''] (Num 10) (Num 5)] ! 0)"
  by (simp add: raw_new_PropertySelection_def isNumber_def Boolean_def rawRangeOn_def
      raw_invariant_def)

text \<open>
  Why the amended claim asks for integer offsets of the other selection, and for a
  receiver that satisfies the invariant. An instance built without \<open>endOffset\<close> does not
  satisfy the invariant; expanding \<open>[0,10]\<close> by it gives \<open>[0,NaN]\<close>; collapsing it to
  the right hands \<open>undefined\<close> to the constructor, which throws. Collapsing an instance
  whose start is \<open>NaN\<close> gives \<open>[NaN,NaN]\<close>; truncating \<open>[0,10]\<close> with \<open>[0,NaN]\<close> gives
  \<open>[NaN,10]\<close>, and with \<open>[NaN,5]\<close> it reaches the last branch and throws the
  illegal-state error.
\<close>

lemma omitted_endOffset_examples:
  "raw_new_PropertySelection [] (Some [''p'']) (Num 4) Undefined None None None =
     Inr (0, [rawRangeOn [''p''] (Num 4) Undefined])"
  "\<not> raw_invariant (rawRangeOn [''p''] (Num 4) Undefined)"
  "raw_expand [rawRangeOn [''p''] (Num 0) (Num 10), rawRangeOn [''p''] (Num 4) Undefined]
     0 (Property 1) =
     Inr (Property 2, [rawRangeOn [''p''] (Num 0) (Num 10), rawRangeOn [''p''] (Num 4) Undefined,
                      rawRangeOn [''p''] (Num 0) NaN])"
  "\<not> raw_invariant (rawRangeOn [''p''] (Num 0) NaN)"
  "raw_collapse [rawRangeOn [''p''] (Num 4) Undefined] 0 ''right'' = Inl InvalidArguments"
  by (simp_all add: raw_expand_def raw_collapse_def Let_def raw_createWithNewRange_def
      raw_new_PropertySelection_def isNumber_def Boolean_def rawRangeOn_def raw_invariant_def)

lemma NaN_examples:
  "raw_collapse [rawRangeOn [''p''] NaN (Num 3)] 0 ''left'' =
     Inr (Property 1, [rawRangeOn [''p''] NaN (Num 3), rawRangeOn [''p''] NaN NaN])"
  "\<not> raw_invariant (rawRangeOn [''p''] NaN NaN)"
  "raw_truncateWith [rawRangeOn [''p''] (Num 0) (Num 10), rawRangeOn [''p''] (Num 0) NaN]
     0 (Property 1) =
     Inr (Property 2, [rawRangeOn [''p''] (Num 0) (Num 10), rawRangeOn [''p''] (Num 0) NaN,
                      rawRangeOn [''p''] NaN (Num 10)])"
  "raw_truncateWith [rawRangeOn [''p''] (Num 0) (Num 10), rawRangeOn [''p''] NaN (Num 5)]
     0 (Property 1) = Inl IllegalState"
  by (simp_all add: raw_truncateWith_def Let_def raw_isInsideOf_def raw_overlaps_def raw_contains_def
      js_gt_def js_ge_def raw_collapse_def raw_createWithNewRange_def
      raw_new_PropertySelection_def isNumber_def Boolean_def rawRangeOn_def raw_invariant_def)

subsection \<open>Further properties of the transforms\<close>

text \<open>
  Property X1. \<open>collapse('left')\<close> returns a new instance whose two offsets are the
  start offset of the receiver, and \<open>collapse('right')\<close> one whose two offsets are its
  end offset; the instance returned is collapsed.
\<close>

theorem collapse_boundaries:
  "collapse h this ''left'' =
     newRange h this (startOffset (h ! this)) (startOffset (h ! this)) \<and>
   collapse h this ''right'' =
     newRange h this (endOffset (h ! this)) (endOffset (h ! this)) \<and>
   isCollapsed (h @ [withRange (h ! this) a a]) (length h)"
  by (simp add: collapse_def Let_def createWithNewRange_newRange isCollapsed_def withRange_def)

text \<open>
  Property X2. \<open>createWithNewRange\<close> always succeeds and returns a reference that was
  not in the store before. The new instance has the given offsets, the path, container
  and surface of the receiver, and is not reversed; every instance that existed before
  is unchanged.
\<close>

theorem createWithNewRange_new_instance:
  "\<exists>h'. createWithNewRange h this a b = Inr (Property (length h), h') \<and>
        length h' = Suc (length h) \<and>
        h' ! length h =
          \<lparr>path = path (h ! this), startOffset = a, endOffset = b, reverse = False,
           containerId = containerId (h ! this), surfaceId = surfaceId (h ! this)\<rparr> \<and>
        (\<forall>r. r < length h \<longrightarrow> h' ! r = h ! r)"
  by (simp add: createWithNewRange_newRange newRange_def withRange_def nth_append)

theorem createWithNewRange_new_instance_witness:
  "createWithNewRange [rangeOn [''p''] 3 6] 0 1 2 =
     Inr (Property 1, [rangeOn [''p''] 3 6, rangeOn [''p''] 1 2])"
proof -
  from createWithNewRange_new_instance [of "[rangeOn [''p''] 3 6]" 0 1 2]
  obtain h' where res: "createWithNewRange [rangeOn [''p''] 3 6] 0 1 2 = Inr (Property 1, h')"
    and len: "length h' = 2"
    and new: "h' ! 1 = rangeOn [''p''] 1 2"
    and old: "h' ! 0 = rangeOn [''p''] 3 6"
    by (auto simp: rangeOn_def)
  from len new old have "h' = [rangeOn [''p''] 3 6, rangeOn [''p''] 1 2]"
    by (cases h'; cases "tl h'"; cases "tl (tl h')") auto
  with res show ?thesis by simp
qed

end
